theory Spec2Isabelle
  imports Main "HOL-Library.Char_ord" "HOL-Library.List_Lexorder"
begin

section \<open>Values, Go maps and graph entities\<close>

text \<open>
  A Go \<open>interface{}\<close> value as the JSON decoder and the property maps produce it.
  \<open>VNil\<close> is the nil interface.
\<close>

datatype val =
    VNil
  | VBool bool
  | VInt int
  | VStr string
  | VList "val list"
  | VMap "(string \<times> val) list"

text \<open>
  A Go map with string keys. \<open>None\<close> is the nil map. The list of a non-nil map holds its
  entries in the order in which one particular \<open>range\<close> loop visits them; Go leaves that
  order unspecified, and every key occurs once (\<open>wf_gomap\<close>).
\<close>

type_synonym 'v gomap = "(string \<times> 'v) list option"

definition entries :: "'v gomap \<Rightarrow> (string \<times> 'v) list" where
  "entries m = (case m of None \<Rightarrow> [] | Some kvs \<Rightarrow> kvs)"

definition wf_gomap :: "'v gomap \<Rightarrow> bool" where
  "wf_gomap m = distinct (map fst (entries m))"

definition index :: "'v gomap \<Rightarrow> string \<Rightarrow> 'v option" where
  "index m k = map_of (entries m) k"

text \<open>
  Modelled from the spec: the declarations of the types \<open>Property\<close>, \<open>Edge\<close> and \<open>Vertex\<close>
  are not part of the sources at hand. The fields are the ones the functions below read;
  identifiers are kept as their string form. The vertex fields \<open>Label\<close> and \<open>Properties\<close>
  are named \<open>VLabel\<close> and \<open>VProperties\<close>, since a record field is a constant of its own.
\<close>

record Property =
  Value :: val

record Edge =
  OutV :: string
  OutVLabel :: string
  InV :: string
  InVLabel :: string
  Label :: string
  Properties :: "Property gomap"

record Vertex =
  ID :: string
  VLabel :: string
  VProperties :: "Property list gomap"
  OutE :: "Edge list gomap"
  InE :: "Edge list gomap"

text \<open>
  \<open>cmp.Equal\<close> on two property maps: a nil map equals only a nil map, and two non-nil maps
  are equal when they have the same number of entries and every entry of the first is an
  entry of the second.
\<close>

definition cmp_Equal :: "Property gomap \<Rightarrow> Property gomap \<Rightarrow> bool" where
  "cmp_Equal x y =
     (case x of
        None \<Rightarrow> (case y of None \<Rightarrow> True | Some ys \<Rightarrow> False)
      | Some xs \<Rightarrow>
          (case y of
             None \<Rightarrow> False
           | Some ys \<Rightarrow>
               length xs = length ys \<and> list_all (\<lambda>(k, v). map_of ys k = Some v) xs))"

section \<open>Strings\<close>

definition sq :: string where
  "sq = [CHR 0x27]"

definition nl :: string where
  "nl = [CHR 0x0A]"

definition tabs :: "nat \<Rightarrow> string" where
  "tabs n = replicate n (CHR 0x09)"

text \<open>\<open>strings.Replace(s, ".", "_", -1)\<close>: every dot becomes an underscore.\<close>

definition replace_dots :: "string \<Rightarrow> string" where
  "replace_dots s = map (\<lambda>c. if c = CHR ''.'' then CHR ''_'' else c) s"

text \<open>The verb \<open>%d\<close> of \<open>fmt.Sprintf\<close> on a loop index, which is never negative.\<close>

fun decimal :: "nat \<Rightarrow> string" where
  "decimal n =
     (if n < 10 then [''0123456789'' ! n]
      else decimal (n div 10) @ [''0123456789'' ! (n mod 10)])"

declare decimal.simps [simp del]

section \<open>Property query generators\<close>

type_synonym Bind = "string \<rightharpoonup> val"

text \<open>The state of a generator: the buffer written so far and the bindings.\<close>

type_synonym gen_state = "string \<times> Bind"

definition vertexBindName :: "string \<Rightarrow> nat \<Rightarrow> string" where
  "vertexBindName propName i = ''_'' @ replace_dots propName @ ''_'' @ decimal i"

text \<open>One round of the inner loop of \<open>vertexPropertiesQuery\<close>; \<open>n\<close> is
  \<open>len(propList[propName])\<close>.\<close>

definition vertexValueStep :: "string \<Rightarrow> nat \<Rightarrow> nat \<times> Property \<Rightarrow> gen_state \<Rightarrow> gen_state" where
  "vertexValueStep propName n iv st =
     (let bindName = vertexBindName propName (fst iv);
          buf1 = fst st @ ''.property('';
          buf2 = (if n > 1 then buf1 @ ''list,'' else buf1);
          buf3 = buf2 @ (sq @ propName @ sq @ '','');
          buf4 = buf3 @ bindName;
          buf5 = buf4 @ '')''
      in (buf5, (snd st)(bindName \<mapsto> Value (snd iv))))"

definition vertexNameStep :: "Property list gomap \<Rightarrow> string \<Rightarrow> gen_state \<Rightarrow> gen_state" where
  "vertexNameStep propList propName st =
     (let vals = (case index propList propName of None \<Rightarrow> [] | Some vs \<Rightarrow> vs)
      in fold (vertexValueStep propName (length vals)) (enumerate 0 vals) st)"

definition vertexPropertiesQuery :: "Property list gomap \<Rightarrow> string \<times> Bind" where
  "vertexPropertiesQuery propList =
     (let propNames = map fst (entries propList);
          sorted_names = sort propNames
      in fold (vertexNameStep propList) sorted_names ('''', Map.empty))"

definition edgeBindName :: "string \<Rightarrow> string" where
  "edgeBindName propName = ''_'' @ replace_dots propName"

definition edgeNameStep :: "Property gomap \<Rightarrow> string \<Rightarrow> gen_state \<Rightarrow> gen_state" where
  "edgeNameStep propList propName st =
     (let bindName = edgeBindName propName;
          buf1 = fst st @ ''.property('';
          buf2 = buf1 @ (sq @ propName @ sq @ '','');
          buf3 = buf2 @ bindName;
          buf4 = buf3 @ '')''
      in (buf4, (snd st)(bindName \<mapsto>
            (case index propList propName of None \<Rightarrow> VNil | Some p \<Rightarrow> Value p))))"

definition edgePropertiesQuery :: "Property gomap \<Rightarrow> string \<times> Bind" where
  "edgePropertiesQuery propList =
     (let propNames = map fst (filter (\<lambda>(name, prop). Value prop \<noteq> VNil) (entries propList));
          sorted_names = sort propNames
      in fold (edgeNameStep propList) sorted_names ('''', Map.empty))"

section \<open>The backend of the graph server\<close>

text \<open>
  The errors of the client library are a type of their own: \<open>ErrIncompleteVertex\<close> is a
  value this package creates with \<open>errors.New\<close>, which the library cannot return.
\<close>

datatype gremlin_error =
    ErrStatusInvalidRequestArguments
  | ErrOther string

datatype error =
    ErrIncompleteVertex
  | ClientError gremlin_error

text \<open>\<open>gremlin.Query(query).Bindings(bindings)\<close>.\<close>

record gremlin_Request =
  Gremlin :: string
  Bindings :: Bind

text \<open>
  What the backend calls outside this repository, over a client state \<open>'c\<close>: the
  client's \<open>Send\<close>, and \<open>json.Unmarshal\<close> into a slice of edges, whose error
  \<open>currentVertexEdges\<close> drops.
\<close>

record 'c library =
  client_Send :: "gremlin_Request \<Rightarrow> 'c \<Rightarrow> (gremlin_error + string) \<times> 'c"
  json_Unmarshal_edges :: "string \<Rightarrow> Edge list"

text \<open>
  The handlers are closures; they act on a world \<open>'w\<close>. The field \<open>sent\<close> is not a field
  of the Go struct: it records the requests handed to the client, in order.
\<close>

record ('c, 'w) ServerBackend =
  client :: 'c
  connected :: bool
  connectedHandlers :: "('w \<Rightarrow> 'w) list"
  disconnectedHandlers :: "(gremlin_error option \<Rightarrow> 'w \<Rightarrow> 'w) list"
  world :: 'w
  sent :: "gremlin_Request list"

definition NewServerBackend :: "'c \<Rightarrow> 'w \<Rightarrow> ('c, 'w) ServerBackend" where
  "NewServerBackend c w =
     \<lparr>client = c, connected = False, connectedHandlers = [], disconnectedHandlers = [],
      world = w, sent = []\<rparr>"

definition AddConnectedHandler ::
  "('w \<Rightarrow> 'w) \<Rightarrow> ('c, 'w) ServerBackend \<Rightarrow> ('c, 'w) ServerBackend" where
  "AddConnectedHandler h b = b\<lparr>connectedHandlers := connectedHandlers b @ [h]\<rparr>"

definition AddDisconnectedHandler ::
  "(gremlin_error option \<Rightarrow> 'w \<Rightarrow> 'w) \<Rightarrow> ('c, 'w) ServerBackend \<Rightarrow> ('c, 'w) ServerBackend" where
  "AddDisconnectedHandler h b = b\<lparr>disconnectedHandlers := disconnectedHandlers b @ [h]\<rparr>"

definition IsConnected :: "('c, 'w) ServerBackend \<Rightarrow> bool" where
  "IsConnected b = connected b"

definition onConnected :: "('c, 'w) ServerBackend \<Rightarrow> ('c, 'w) ServerBackend" where
  "onConnected b =
     (let b1 = b\<lparr>connected := True\<rparr>
      in b1\<lparr>world := fold (\<lambda>h w. h w) (connectedHandlers b1) (world b1)\<rparr>)"

definition onDisconnected ::
  "gremlin_error option \<Rightarrow> ('c, 'w) ServerBackend \<Rightarrow> ('c, 'w) ServerBackend" where
  "onDisconnected err b =
     (let b1 = b\<lparr>connected := False\<rparr>
      in b1\<lparr>world := fold (\<lambda>h w. h err w) (disconnectedHandlers b1) (world b1)\<rparr>)"

definition Send ::
  "'c library \<Rightarrow> gremlin_Request \<Rightarrow> ('c, 'w) ServerBackend
     \<Rightarrow> (gremlin_error + string) \<times> ('c, 'w) ServerBackend" where
  "Send lib req b =
     (let r = client_Send lib req (client b)
      in (fst r, b\<lparr>client := snd r, sent := sent b @ [req]\<rparr>))"

text \<open>The \<open>error\<close> a call leaves in \<open>err\<close>: \<open>None\<close> is nil.\<close>

definition err_of :: "gremlin_error + string \<Rightarrow> error option" where
  "err_of r = (case r of Inl ge \<Rightarrow> Some (ClientError ge) | Inr data \<Rightarrow> None)"

definition missing_vertex_properties :: string where
  "missing_vertex_properties =
     nl @ tabs 3 @ '' .property('fq_name', ['_missing'])''
     @ nl @ tabs 3 @ '' .property('_missing', true)''
     @ nl @ tabs 3 @ '' .property('deleted', 0)''
     @ nl @ tabs 2"

definition CreateEdge_query :: "Edge \<Rightarrow> string \<Rightarrow> string" where
  "CreateEdge_query e props =
     (let query0 = [];
          query1 =
            (if OutVLabel e = [] then
               ''g.V(_outv).as('outv').coalesce(''
               @ nl @ tabs 3 @ ''g.V(_inv),''
               @ nl @ tabs 3 @ ''g.addV(_inv_label)''
               @ nl @ tabs 3 @ '' .property(id, _inv)''
               @ missing_vertex_properties
               @ '').addE(_label).from('outv')'' @ props @ ''.iterate()''
             else query0);
          query2 =
            (if InVLabel e = [] then
               ''g.V(_inv).as('inv').coalesce(''
               @ nl @ tabs 3 @ ''g.V(_outv),''
               @ nl @ tabs 3 @ ''g.addV(_outv_label)''
               @ nl @ tabs 3 @ '' .property(id, _outv)''
               @ missing_vertex_properties
               @ '').addE(_label).to('inv')'' @ props @ ''.iterate()''
             else query1)
      in query2)"

definition CreateEdge_request :: "Edge \<Rightarrow> gremlin_Request" where
  "CreateEdge_request e =
     (let pq = edgePropertiesQuery (Properties e);
          bindings = (snd pq)
            (''_outv'' \<mapsto> VStr (OutV e),
             ''_outv_label'' \<mapsto> VStr (OutVLabel e),
             ''_inv'' \<mapsto> VStr (InV e),
             ''_inv_label'' \<mapsto> VStr (InVLabel e),
             ''_label'' \<mapsto> VStr (Label e))
      in \<lparr>Gremlin = CreateEdge_query e (fst pq), Bindings = bindings\<rparr>)"

definition CreateEdge ::
  "'c library \<Rightarrow> Edge \<Rightarrow> ('c, 'w) ServerBackend \<Rightarrow> error option \<times> ('c, 'w) ServerBackend" where
  "CreateEdge lib e b =
     (let r = Send lib (CreateEdge_request e) b in (err_of (fst r), snd r))"

definition UpdateEdge_request :: "Edge \<Rightarrow> gremlin_Request" where
  "UpdateEdge_request e =
     (let pq = edgePropertiesQuery (Properties e);
          bindings = (snd pq)(''_inv'' \<mapsto> VStr (InV e), ''_outv'' \<mapsto> VStr (OutV e));
          query = ''g.V(_inv).bothE().where(otherV().hasId(_outv))''
            @ nl @ tabs 3 @ ''   .sideEffect(properties().drop())'' @ fst pq @ ''.iterate()''
      in \<lparr>Gremlin = query, Bindings = bindings\<rparr>)"

definition UpdateEdge ::
  "'c library \<Rightarrow> Edge \<Rightarrow> ('c, 'w) ServerBackend \<Rightarrow> error option \<times> ('c, 'w) ServerBackend" where
  "UpdateEdge lib e b =
     (let r = Send lib (UpdateEdge_request e) b in (err_of (fst r), snd r))"

definition DeleteVertex_request :: "Vertex \<Rightarrow> gremlin_Request" where
  "DeleteVertex_request v =
     \<lparr>Gremlin = ''g.V(_id).drop()'', Bindings = [''_id'' \<mapsto> VStr (ID v)]\<rparr>"

definition DeleteVertex ::
  "'c library \<Rightarrow> Vertex \<Rightarrow> ('c, 'w) ServerBackend \<Rightarrow> error option \<times> ('c, 'w) ServerBackend" where
  "DeleteVertex lib v b =
     (let r = Send lib (DeleteVertex_request v) b in (err_of (fst r), snd r))"

definition DeleteEdge_request :: "Edge \<Rightarrow> gremlin_Request" where
  "DeleteEdge_request e =
     \<lparr>Gremlin = ''g.V(_inv).bothE().where(otherV().hasId(_outv)).drop()'',
      Bindings = [''_inv'' \<mapsto> VStr (InV e), ''_outv'' \<mapsto> VStr (OutV e)]\<rparr>"

definition DeleteEdge ::
  "'c library \<Rightarrow> Edge \<Rightarrow> ('c, 'w) ServerBackend \<Rightarrow> error option \<times> ('c, 'w) ServerBackend" where
  "DeleteEdge lib e b =
     (let r = Send lib (DeleteEdge_request e) b in (err_of (fst r), snd r))"

definition UpdateVertexProperty_request :: "Vertex \<Rightarrow> string \<Rightarrow> val \<Rightarrow> gremlin_Request" where
  "UpdateVertexProperty_request v name value =
     \<lparr>Gremlin = ''g.V(_id).property(_name, _value).iterate()'',
      Bindings = [''_id'' \<mapsto> VStr (ID v), ''_name'' \<mapsto> VStr name, ''_value'' \<mapsto> value]\<rparr>"

definition UpdateVertexProperty ::
  "'c library \<Rightarrow> Vertex \<Rightarrow> string \<Rightarrow> val \<Rightarrow> ('c, 'w) ServerBackend
     \<Rightarrow> error option \<times> ('c, 'w) ServerBackend" where
  "UpdateVertexProperty lib v name value b =
     (if VLabel v = [] then (Some ErrIncompleteVertex, b)
      else (let r = Send lib (UpdateVertexProperty_request v name value) b
            in (err_of (fst r), snd r)))"

section \<open>Edge reconciliation\<close>

definition currentVertexEdges_request :: "Vertex \<Rightarrow> gremlin_Request" where
  "currentVertexEdges_request v =
     \<lparr>Gremlin = ''g.V(_id).bothE()'', Bindings = [''_id'' \<mapsto> VStr (ID v)]\<rparr>"

definition currentVertexEdges ::
  "'c library \<Rightarrow> Vertex \<Rightarrow> ('c, 'w) ServerBackend
     \<Rightarrow> (Edge list \<times> error option) \<times> ('c, 'w) ServerBackend" where
  "currentVertexEdges lib v b =
     (let r = Send lib (currentVertexEdges_request v) b
      in (case fst r of
            Inl ge \<Rightarrow> (([], Some (ClientError ge)), snd r)
          | Inr data \<Rightarrow> ((json_Unmarshal_edges lib data, None), snd r)))"

text \<open>The test both loops of \<open>diffVertexEdges\<close> apply to a pair of edges.\<close>

definition same_edge :: "Edge \<Rightarrow> Edge \<Rightarrow> bool" where
  "same_edge l1 l2 = (InV l1 = InV l2 \<and> OutV l1 = OutV l2 \<and> Label l1 = Label l2)"

text \<open>The two \<open>range\<close> loops that gather the edges of the vertex.\<close>

definition vertexEdges :: "Vertex \<Rightarrow> Edge list" where
  "vertexEdges v =
     (let es1 = fold (\<lambda>kv acc. acc @ snd kv) (entries (OutE v)) [];
          es2 = fold (\<lambda>kv acc. acc @ snd kv) (entries (InE v)) es1
      in es2)"

text \<open>The inner loop of the first pass: \<open>(found, update)\<close> when it ends or breaks.\<close>

fun scanCurrent :: "Edge \<Rightarrow> Edge list \<Rightarrow> bool \<times> bool" where
  "scanCurrent l1 [] = (False, False)"
| "scanCurrent l1 (l2 # rest) =
     (if same_edge l1 l2 then (True, \<not> cmp_Equal (Properties l1) (Properties l2))
      else scanCurrent l1 rest)"

text \<open>One round of the first pass, on \<open>(toAdd, toUpdate)\<close>.\<close>

definition desiredStep :: "Edge list \<Rightarrow> Edge \<Rightarrow> Edge list \<times> Edge list \<Rightarrow> Edge list \<times> Edge list" where
  "desiredStep currentEdges l1 acc =
     (let fu = scanCurrent l1 currentEdges;
          toAdd = (if \<not> fst fu then fst acc @ [l1] else fst acc);
          toUpdate = (if fst fu \<and> snd fu then snd acc @ [l1] else snd acc)
      in (toAdd, toUpdate))"

text \<open>The inner loop of the second pass: \<open>found\<close> when it ends or breaks.\<close>

fun scanDesired :: "Edge \<Rightarrow> Edge list \<Rightarrow> bool" where
  "scanDesired l1 [] = False"
| "scanDesired l1 (l2 # rest) = (if same_edge l1 l2 then True else scanDesired l1 rest)"

definition currentStep :: "Edge list \<Rightarrow> Edge \<Rightarrow> Edge list \<Rightarrow> Edge list" where
  "currentStep desired l1 toRemove =
     (if \<not> scanDesired l1 desired then toRemove @ [l1] else toRemove)"

text \<open>The diff of the desired edges against the edges read: \<open>(toAdd, toUpdate, toRemove)\<close>.\<close>

definition diffEdges :: "Edge list \<Rightarrow> Edge list \<Rightarrow> Edge list \<times> Edge list \<times> Edge list" where
  "diffEdges desired currentEdges =
     (let au = fold (desiredStep currentEdges) desired ([], []);
          toRemove = fold (currentStep desired) currentEdges []
      in (fst au, snd au, toRemove))"

definition diffVertexEdges ::
  "'c library \<Rightarrow> Vertex \<Rightarrow> ('c, 'w) ServerBackend
     \<Rightarrow> ((Edge list \<times> Edge list \<times> Edge list) \<times> error option) \<times> ('c, 'w) ServerBackend" where
  "diffVertexEdges lib v b =
     (let r = currentVertexEdges lib v b
      in (case snd (fst r) of
            Some err \<Rightarrow> ((([], [], []), Some err), snd r)
          | None \<Rightarrow> ((diffEdges (vertexEdges v) (fst (fst r)), None), snd r)))"

text \<open>
  A loop \<open>for _, edge := range edges { err = op(edge); if err != nil { return err } }\<close>:
  \<open>Some err\<close> when it returned from inside, \<open>None\<close> when it ran to its end.
\<close>

fun forEdges ::
  "(Edge \<Rightarrow> 's \<Rightarrow> error option \<times> 's) \<Rightarrow> Edge list \<Rightarrow> 's \<Rightarrow> error option \<times> 's" where
  "forEdges op [] b = (None, b)"
| "forEdges op (edge # rest) b =
     (let r = op edge b
      in (case fst r of Some err \<Rightarrow> (Some err, snd r) | None \<Rightarrow> forEdges op rest (snd r)))"

definition applyEdges ::
  "'c library \<Rightarrow> Edge list \<times> Edge list \<times> Edge list \<Rightarrow> ('c, 'w) ServerBackend
     \<Rightarrow> error option \<times> ('c, 'w) ServerBackend" where
  "applyEdges lib d b =
     (let r1 = forEdges (CreateEdge lib) (fst d) b
      in (case fst r1 of
            Some err \<Rightarrow> (Some err, snd r1)
          | None \<Rightarrow>
              (let r2 = forEdges (UpdateEdge lib) (fst (snd d)) (snd r1)
               in (case fst r2 of
                     Some err \<Rightarrow> (Some err, snd r2)
                   | None \<Rightarrow>
                       (let r3 = forEdges (DeleteEdge lib) (snd (snd d)) (snd r2)
                        in (case fst r3 of
                              Some err \<Rightarrow> (Some err, snd r3)
                            | None \<Rightarrow> (None, snd r3)))))))"

definition updateVertexEdges ::
  "'c library \<Rightarrow> Vertex \<Rightarrow> ('c, 'w) ServerBackend \<Rightarrow> error option \<times> ('c, 'w) ServerBackend" where
  "updateVertexEdges lib v b =
     (let r = diffVertexEdges lib v b
      in (case snd (fst r) of
            Some err \<Rightarrow> (Some err, snd r)
          | None \<Rightarrow> applyEdges lib (fst (fst r)) (snd r)))"

section \<open>Vertex upsert\<close>

definition UpdateVertex_request :: "Vertex \<Rightarrow> gremlin_Request" where
  "UpdateVertex_request v =
     (let pq = vertexPropertiesQuery (VProperties v);
          bindings = (snd pq)(''_id'' \<mapsto> VStr (ID v), ''_label'' \<mapsto> VStr (VLabel v));
          query = ''g.V().hasId(_id).fold().''
            @ nl @ tabs 3 @ ''  coalesce(unfold().sideEffect(properties().drop()),''
            @ nl @ tabs 5 @ ''   addV(_label).property(id, _id))''
            @ nl @ tabs 3 @ '' '' @ fst pq @ ''.iterate()''
      in \<lparr>Gremlin = query, Bindings = bindings\<rparr>)"

definition UpdateVertex ::
  "'c library \<Rightarrow> Vertex \<Rightarrow> ('c, 'w) ServerBackend \<Rightarrow> error option \<times> ('c, 'w) ServerBackend" where
  "UpdateVertex lib v b =
     (if VLabel v = [] then (Some ErrIncompleteVertex, b)
      else (let r = Send lib (UpdateVertex_request v) b
            in (case fst r of
                  Inl ge \<Rightarrow> (Some (ClientError ge), snd r)
                | Inr data \<Rightarrow> updateVertexEdges lib v (snd r))))"

definition CreateVertex ::
  "'c library \<Rightarrow> Vertex \<Rightarrow> ('c, 'w) ServerBackend \<Rightarrow> error option \<times> ('c, 'w) ServerBackend" where
  "CreateVertex lib v b = UpdateVertex lib v b"

section \<open>Example inputs\<close>

text \<open>A client that accepts every request and returns an empty result; it counts the calls.\<close>

definition lib_ok :: "nat library" where
  "lib_ok = \<lparr>client_Send = (\<lambda>req c. (Inr [], Suc c)), json_Unmarshal_edges = (\<lambda>data. [])\<rparr>"

definition backend0 :: "(nat, unit) ServerBackend" where
  "backend0 = onConnected (NewServerBackend 0 ())"

definition vertex_unlabelled :: Vertex where
  "vertex_unlabelled = \<lparr>ID = ''v1'', VLabel = [], VProperties = None, OutE = None, InE = None\<rparr>"

definition vertex_labelled :: Vertex where
  "vertex_labelled =
     \<lparr>ID = ''v1'', VLabel = ''virtual_network'', VProperties = None, OutE = None, InE = None\<rparr>"

section \<open>Incomplete vertices\<close>

lemma err_of_not_incomplete: "err_of r \<noteq> Some ErrIncompleteVertex"
  by (simp add: err_of_def split: sum.splits)

lemma forEdges_error_from_op:
  "fst (forEdges op es b) = Some err \<Longrightarrow> \<exists>e s. e \<in> set es \<and> fst (op e s) = Some err"
proof (induction es arbitrary: b)
  case Nil
  then show ?case by simp
next
  case (Cons e es)
  show ?case
  proof (cases "fst (op e b)")
    case None
    with Cons.prems have "fst (forEdges op es (snd (op e b))) = Some err"
      by (simp add: Let_def)
    from Cons.IH [OF this] show ?thesis by auto
  next
    case (Some x)
    with Cons.prems have "x = err" by (simp add: Let_def)
    with Some show ?thesis by auto
  qed
qed

lemma CreateEdge_not_incomplete: "fst (CreateEdge lib e b) \<noteq> Some ErrIncompleteVertex"
  by (simp add: CreateEdge_def Let_def err_of_not_incomplete)

lemma UpdateEdge_not_incomplete: "fst (UpdateEdge lib e b) \<noteq> Some ErrIncompleteVertex"
  by (simp add: UpdateEdge_def Let_def err_of_not_incomplete)

lemma DeleteEdge_not_incomplete: "fst (DeleteEdge lib e b) \<noteq> Some ErrIncompleteVertex"
  by (simp add: DeleteEdge_def Let_def err_of_not_incomplete)

lemma forEdges_never:
  assumes "\<And>e s. fst (op e s) \<noteq> Some x"
  shows "fst (forEdges op es b) \<noteq> Some x"
  using forEdges_error_from_op [of op es b x] assms by blast

lemma forEdges_CreateEdge_not_incomplete:
  "fst (forEdges (CreateEdge lib) es s) \<noteq> Some ErrIncompleteVertex"
  by (rule forEdges_never) (rule CreateEdge_not_incomplete)

lemma forEdges_UpdateEdge_not_incomplete:
  "fst (forEdges (UpdateEdge lib) es s) \<noteq> Some ErrIncompleteVertex"
  by (rule forEdges_never) (rule UpdateEdge_not_incomplete)

lemma forEdges_DeleteEdge_not_incomplete:
  "fst (forEdges (DeleteEdge lib) es s) \<noteq> Some ErrIncompleteVertex"
  by (rule forEdges_never) (rule DeleteEdge_not_incomplete)

lemma applyEdges_not_incomplete: "fst (applyEdges lib d b) \<noteq> Some ErrIncompleteVertex"
  unfolding applyEdges_def Let_def
  by (auto simp: forEdges_CreateEdge_not_incomplete forEdges_UpdateEdge_not_incomplete
      forEdges_DeleteEdge_not_incomplete split: option.split)

lemma currentVertexEdges_not_incomplete:
  "snd (fst (currentVertexEdges lib v b)) \<noteq> Some ErrIncompleteVertex"
  by (simp add: currentVertexEdges_def Let_def split: sum.splits)

lemma updateVertexEdges_not_incomplete:
  "fst (updateVertexEdges lib v b) \<noteq> Some ErrIncompleteVertex"
  unfolding updateVertexEdges_def diffVertexEdges_def Let_def
  by (auto simp: currentVertexEdges_not_incomplete applyEdges_not_incomplete
      split: option.split)

text \<open>
  C5: a vertex whose label is empty makes \<open>UpdateVertex\<close> and \<open>UpdateVertexProperty\<close>
  return \<open>ErrIncompleteVertex\<close> with the backend untouched, so nothing is sent to the
  client; with a label that is not empty, neither returns that error.
\<close>

theorem incomplete_vertex_rejected:
  "(VLabel v = [] \<longrightarrow>
      UpdateVertex lib v b = (Some ErrIncompleteVertex, b) \<and>
      UpdateVertexProperty lib v name value b = (Some ErrIncompleteVertex, b) \<and>
      sent (snd (UpdateVertex lib v b)) = sent b \<and>
      sent (snd (UpdateVertexProperty lib v name value b)) = sent b)
   \<and> (VLabel v \<noteq> [] \<longrightarrow>
      fst (UpdateVertex lib v b) \<noteq> Some ErrIncompleteVertex \<and>
      fst (UpdateVertexProperty lib v name value b) \<noteq> Some ErrIncompleteVertex)"
proof (intro conjI impI)
  assume "VLabel v \<noteq> []"
  then show "fst (UpdateVertex lib v b) \<noteq> Some ErrIncompleteVertex"
    by (auto simp: UpdateVertex_def Let_def updateVertexEdges_not_incomplete split: sum.splits)
next
  assume "VLabel v \<noteq> []"
  then show "fst (UpdateVertexProperty lib v name value b) \<noteq> Some ErrIncompleteVertex"
    by (simp add: UpdateVertexProperty_def Let_def err_of_not_incomplete)
qed (simp_all add: UpdateVertex_def UpdateVertexProperty_def)

theorem incomplete_vertex_rejected_witness:
  "UpdateVertex lib_ok vertex_unlabelled backend0 = (Some ErrIncompleteVertex, backend0)
   \<and> UpdateVertexProperty lib_ok vertex_unlabelled ''name'' (VStr ''net'') backend0
       = (Some ErrIncompleteVertex, backend0)
   \<and> fst (UpdateVertex lib_ok vertex_labelled backend0) \<noteq> Some ErrIncompleteVertex
   \<and> fst (UpdateVertexProperty lib_ok vertex_labelled ''name'' (VStr ''net'') backend0)
       \<noteq> Some ErrIncompleteVertex"
  using incomplete_vertex_rejected [of vertex_unlabelled lib_ok backend0 "''name''" "VStr ''net''"]
    incomplete_vertex_rejected [of vertex_labelled lib_ok backend0 "''name''" "VStr ''net''"]
  by (simp add: vertex_unlabelled_def vertex_labelled_def)

end
